theory Spec2Isabelle
  imports Complex_Main
begin

section \<open>Values and errors\<close>

text \<open>
  The program is \<^verbatim>\<open>src/weather.py\<close>. Its values are Python integers, floats and
  strings: \<^verbatim>\<open>number_or_string\<close> returns any of the three, and every numeric function
  coerces its argument with \<^verbatim>\<open>float(...)\<close> first. \<^verbatim>\<open>None\<close> is the initial value of the
  running extreme in \<^verbatim>\<open>find_min\<close> and \<^verbatim>\<open>find_max\<close>. Python integers are unbounded
  (\<open>int\<close>). Floats are idealised as exact rationals: the model has no rounding error,
  no infinities, no NaN, no negative zero and no overflow. Strings are lists of characters, one
  \<open>char\<close> per code point (every code point the program itself writes is below 256).
  An exception is a value \<open>Inl e\<close> of a sum type.
\<close>

datatype pyval = PNone | PInt int | PFloat rat | PStr string

datatype error = ValueError | TypeError | ZeroDivisionError | IndexError | FileNotFoundError

definition bindE :: "error + 'a \<Rightarrow> ('a \<Rightarrow> error + 'b) \<Rightarrow> error + 'b" where
  "bindE m f = (case m of Inl e \<Rightarrow> Inl e | Inr x \<Rightarrow> f x)"

section \<open>The library functions the program calls\<close>

subsection \<open>Reading numbers: \<^verbatim>\<open>float(x)\<close>\<close>

text \<open>
  Inside the numeric functions \<^verbatim>\<open>float(x)\<close> is applied to the elements of a list. For
  an element that is a string the model reads a plain decimal literal: optional
  surrounding white space, an optional sign, digits and an optional decimal point. The
  statements about the numeric functions are about lists of numbers. The loader, which
  applies \<^verbatim>\<open>int\<close> and \<^verbatim>\<open>float\<close> to the fields of a file, takes the two library
  functions as parameters (see there).
\<close>

definition is_digit :: "char \<Rightarrow> bool" where
  "is_digit c = (c \<in> set ''0123456789'')"

definition digit_val :: "char \<Rightarrow> nat" where
  "digit_val c = of_char c - 48"

definition digits_val :: "string \<Rightarrow> nat" where
  "digits_val s = foldl (\<lambda>a c. 10 * a + digit_val c) 0 s"

definition is_space :: "char \<Rightarrow> bool" where
  "is_space c = (c \<in> {CHR '' '', CHR 0x09, CHR 0x0A, CHR 0x0B, CHR 0x0C, CHR 0x0D})"

definition strip :: "string \<Rightarrow> string" where
  "strip s = rev (dropWhile is_space (rev (dropWhile is_space s)))"

fun split_sign :: "string \<Rightarrow> bool \<times> string" where
  "split_sign [] = (False, [])"
| "split_sign (c # cs) =
     (if c = CHR ''-'' then (True, cs) else if c = CHR ''+'' then (False, cs) else (False, c # cs))"

definition parse_float :: "string \<Rightarrow> rat option" where
  "parse_float s =
     (let (neg, body) = split_sign (strip s);
          ip = takeWhile (\<lambda>c. c \<noteq> CHR ''.'') body;
          fp = drop (Suc (length ip)) body
      in if list_all is_digit ip \<and> list_all is_digit fp \<and> (ip \<noteq> [] \<or> fp \<noteq> [])
         then let m = of_nat (digits_val ip) + of_nat (digits_val fp) / 10 ^ length fp
              in Some (if neg then - m else m)
         else None)"

text \<open>
  \<^verbatim>\<open>float(x)\<close>: an integer is embedded, a float is itself, a string is read, and
  \<^verbatim>\<open>None\<close> is a type error.
\<close>

fun py_float :: "pyval \<Rightarrow> error + rat" where
  "py_float PNone = Inl TypeError"
| "py_float (PInt i) = Inr (of_int i)"
| "py_float (PFloat r) = Inr r"
| "py_float (PStr s) = (case parse_float s of None \<Rightarrow> Inl ValueError | Some r \<Rightarrow> Inr r)"

text \<open>
  Truthiness of the running extreme in \<^verbatim>\<open>find_min\<close> and \<^verbatim>\<open>find_max\<close>, which is
  \<^verbatim>\<open>None\<close> or a float: \<^verbatim>\<open>not found_val\<close> holds for \<^verbatim>\<open>None\<close> and for \<^verbatim>\<open>0.0\<close>.
\<close>

fun py_not :: "rat option \<Rightarrow> bool" where
  "py_not None = True"
| "py_not (Some v) = (v = 0)"


section \<open>The numeric aggregator\<close>

text \<open>
  \<^verbatim>\<open>
  def calculate_mean(weather_data):
      total = 0
      for x in weather_data:
          total += float(x)
      return total / len(weather_data)
  \<close>
  The accumulator \<^verbatim>\<open>total\<close> is \<open>tot\<close>.
\<close>

fun mean_loop :: "pyval list \<Rightarrow> rat \<Rightarrow> error + rat" where
  "mean_loop [] tot = Inr tot"
| "mean_loop (x # xs) tot =
     (case py_float x of Inl e \<Rightarrow> Inl e | Inr v \<Rightarrow> mean_loop xs (tot + v))"

definition calculate_mean :: "pyval list \<Rightarrow> error + rat" where
  "calculate_mean weather_data =
     (case mean_loop weather_data 0 of
        Inl e \<Rightarrow> Inl e
      | Inr tot \<Rightarrow>
          if length weather_data = 0 then Inl ZeroDivisionError
          else Inr (tot / of_nat (length weather_data)))"

text \<open>
  \<^verbatim>\<open>
  def find_min(weather_data):
      found_id = None
      found_val = None
      for idx, val in enumerate(weather_data):
          if not found_val or float(val) <= found_val:
              found_id = idx
              found_val = float(val)
      if found_id is None:
          return ()
      return found_val, found_id
  \<close>
  The loop state is \<open>(found_id, found_val)\<close>; \<open>idx\<close> is the position that
  \<^verbatim>\<open>enumerate\<close> hands out. On either side of the \<^verbatim>\<open>or\<close> the element is coerced with
  \<^verbatim>\<open>float\<close> before the state is complete, so a failing coercion always leaves the loop.
  The empty tuple \<^verbatim>\<open>()\<close> is \<open>None\<close>, the pair is \<open>Some (found_val, found_id)\<close>, where
  \<open>found_val\<close> is still the variable's value: \<open>None\<close> or \<open>Some\<close> float.
\<close>

fun find_min_loop ::
  "pyval list \<Rightarrow> nat \<Rightarrow> nat option \<times> rat option \<Rightarrow> error + (nat option \<times> rat option)" where
  "find_min_loop [] idx st = Inr st"
| "find_min_loop (val # rest) idx (found_id, found_val) =
     (case py_float val of
        Inl e \<Rightarrow> Inl e
      | Inr v \<Rightarrow>
          if py_not found_val \<or> (case found_val of None \<Rightarrow> False | Some f \<Rightarrow> v \<le> f)
          then find_min_loop rest (Suc idx) (Some idx, Some v)
          else find_min_loop rest (Suc idx) (found_id, found_val))"

definition find_min :: "pyval list \<Rightarrow> error + (rat option \<times> nat) option" where
  "find_min weather_data =
     (case find_min_loop weather_data 0 (None, None) of
        Inl e \<Rightarrow> Inl e
      | Inr (found_id, found_val) \<Rightarrow>
          (case found_id of None \<Rightarrow> Inr None | Some i \<Rightarrow> Inr (Some (found_val, i))))"

fun find_max_loop ::
  "pyval list \<Rightarrow> nat \<Rightarrow> nat option \<times> rat option \<Rightarrow> error + (nat option \<times> rat option)" where
  "find_max_loop [] idx st = Inr st"
| "find_max_loop (val # rest) idx (found_id, found_val) =
     (case py_float val of
        Inl e \<Rightarrow> Inl e
      | Inr v \<Rightarrow>
          if py_not found_val \<or> (case found_val of None \<Rightarrow> False | Some f \<Rightarrow> v \<ge> f)
          then find_max_loop rest (Suc idx) (Some idx, Some v)
          else find_max_loop rest (Suc idx) (found_id, found_val))"

definition find_max :: "pyval list \<Rightarrow> error + (rat option \<times> nat) option" where
  "find_max weather_data =
     (case find_max_loop weather_data 0 (None, None) of
        Inl e \<Rightarrow> Inl e
      | Inr (found_id, found_val) \<Rightarrow>
          (case found_id of None \<Rightarrow> Inr None | Some i \<Rightarrow> Inr (Some (found_val, i))))"

section \<open>Temperatures\<close>

text \<open>
  \<^verbatim>\<open>round(x, 1)\<close>: the multiple of one tenth nearest to \<open>x\<close>; of two equally near
  ones, the one with an even number of tenths.
\<close>

definition py_round1 :: "rat \<Rightarrow> rat" where
  "py_round1 x =
     (let y = x * 10; f = \<lfloor>y\<rfloor>; d = y - of_int f
      in of_int (if d < 1 / 2 then f else if 1 / 2 < d then f + 1
                 else if even f then f else f + 1) / 10)"

text \<open>
  \<^verbatim>\<open>
  def convert_f_to_c(temp_in_farenheit):
      return round((float(temp_in_farenheit) - 32) * 5 / 9, 1)
  \<close>
\<close>

definition convert_f_to_c :: "pyval \<Rightarrow> error + rat" where
  "convert_f_to_c temp_in_farenheit =
     bindE (py_float temp_in_farenheit) (\<lambda>x. Inr (py_round1 ((x - 32) * 5 / 9)))"

subsection \<open>Printing values\<close>

text \<open>
  \<^verbatim>\<open>str\<close> of an integer is its decimal numeral. \<^verbatim>\<open>str\<close> of a float is modelled by the
  exact decimal expansion: sign, integer part, point, and the digits after the point up
  to the last non-zero one, at least one and at most 17. For a multiple of one tenth
  below ten to the 16th in magnitude this is what Python prints; the exponent notation
  of very large and very small floats is outside the model.
\<close>

definition digit_chr :: "nat \<Rightarrow> char" where
  "digit_chr d = ''0123456789'' ! (d mod 10)"

fun str_nat :: "nat \<Rightarrow> string" where
  "str_nat n = (if n < 10 then [digit_chr n] else str_nat (n div 10) @ [digit_chr n])"

declare str_nat.simps [simp del]

definition str_int :: "int \<Rightarrow> string" where
  "str_int i = (if i < 0 then CHR ''-'' # str_nat (nat (- i)) else str_nat (nat i))"

fun frac_digits :: "nat \<Rightarrow> rat \<Rightarrow> string" where
  "frac_digits 0 x = []"
| "frac_digits (Suc n) x =
     (let y = x * 10; d = nat \<lfloor>y\<rfloor>
      in digit_chr d # (if y - of_nat d = 0 then [] else frac_digits n (y - of_nat d)))"

definition float_repr :: "rat \<Rightarrow> string" where
  "float_repr r =
     (let a = \<bar>r\<bar>; ip = nat \<lfloor>a\<rfloor>
      in (if r < 0 then [CHR ''-''] else []) @ str_nat ip @ [CHR ''.'']
           @ frac_digits 17 (a - of_nat ip))"

fun py_str :: "pyval \<Rightarrow> string" where
  "py_str PNone = ''None''"
| "py_str (PInt i) = str_int i"
| "py_str (PFloat r) = float_repr r"
| "py_str (PStr s) = s"

text \<open>
  \<^verbatim>\<open>
  DEGREE_SYBMOL = "\N{DEGREE SIGN}C"

  def format_temperature(temp):
      return f"{temp}{DEGREE_SYBMOL}"
  \<close>
  The degree sign is the code point 176.
\<close>

definition DEGREE_SYBMOL :: string where
  "DEGREE_SYBMOL = [CHR 0xB0, CHR ''C'']"

definition format_temperature :: "pyval \<Rightarrow> string" where
  "format_temperature temp = py_str temp @ DEGREE_SYBMOL"

section \<open>Dates\<close>

subsection \<open>\<^verbatim>\<open>datetime.fromisoformat\<close>\<close>

text \<open>
  Only the calendar date of a \<^verbatim>\<open>datetime\<close> reaches the output, so the model keeps
  year, month and day. The time of day and the UTC offset are read and checked, because
  a string is rejected when they are malformed or out of range, and then dropped.
\<close>

record datetime =
  year :: nat
  month :: nat
  day :: nat

definition is_leap :: "nat \<Rightarrow> bool" where
  "is_leap y = (y mod 4 = 0 \<and> (y mod 100 \<noteq> 0 \<or> y mod 400 = 0))"

definition days_in_month :: "nat \<Rightarrow> nat \<Rightarrow> nat" where
  "days_in_month y m =
     (if m = 2 then (if is_leap y then 29 else 28)
      else if m = 4 \<or> m = 6 \<or> m = 9 \<or> m = 11 then 30 else 31)"

text \<open>
  The ordinal of a date counts the days from 1 January of year 1, which is day 1.
\<close>

definition days_before_year :: "nat \<Rightarrow> nat" where
  "days_before_year y =
     (let p = y - 1 in p * 365 + p div 4 + p div 400 - p div 100)"

definition days_before_month :: "nat \<Rightarrow> nat \<Rightarrow> nat" where
  "days_before_month y m = sum_list (map (days_in_month y) [1..<m])"

definition toordinal :: "datetime \<Rightarrow> nat" where
  "toordinal dt = days_before_year (year dt) + days_before_month (year dt) (month dt) + day dt"

text \<open>
  The model of \<^verbatim>\<open>fromisoformat\<close> follows the parser of the C implementation of the
  \<^verbatim>\<open>datetime\<close> module in CPython 3.11. The parser works on the UTF-8 encoding of the
  string, a byte sequence that ends with a zero byte; reading at or after the end gives
  that zero byte. A code point below 128 is one byte, the others of a \<open>char\<close> are two.
\<close>

definition utf8 :: "string \<Rightarrow> string" where
  "utf8 s =
     concat (map (\<lambda>c. if (of_char c :: nat) < 128 then [c]
                       else [char_of (192 + (of_char c :: nat) div 64),
                             char_of (128 + (of_char c :: nat) mod 64)]) s)"

definition byte_at :: "string \<Rightarrow> nat \<Rightarrow> char" where
  "byte_at bs i = (if i < length bs then bs ! i else CHR 0x00)"

definition char_width :: "char \<Rightarrow> nat" where
  "char_width c =
     (let n = (of_char c :: nat)
      in if n < 128 then 1 else if n div 16 = 14 then 3 else if n div 16 = 15 then 4 else 2)"

text \<open>\<open>parse_digits bs p n\<close> reads exactly \<open>n\<close> decimal digits at position \<open>p\<close>.\<close>

definition parse_digits :: "string \<Rightarrow> nat \<Rightarrow> nat \<Rightarrow> nat option" where
  "parse_digits bs p n =
     (let ds = take n (drop p bs)
      in if length ds = n \<and> list_all is_digit ds then Some (digits_val ds) else None)"

text \<open>
  Where the date ends. The date is \<^verbatim>\<open>YYYY-MM-DD\<close>, \<^verbatim>\<open>YYYYMMDD\<close>, or a week date
  \<^verbatim>\<open>YYYY-Www\<close>, \<^verbatim>\<open>YYYY-Www-D\<close>, \<^verbatim>\<open>YYYYWww\<close>, \<^verbatim>\<open>YYYYWwwD\<close>; the character after it is the
  separator, which may be any character. The parser has no position for \<^verbatim>\<open>YYYY-W\<close> cut
  short and for \<^verbatim>\<open>YYYY-Www-\<close> of length 9 (\<open>None\<close>); reading the date fails on both.
\<close>

definition find_separator :: "string \<Rightarrow> nat option" where
  "find_separator bs =
     (let len = length bs
      in if len = 7 then Some 7
         else if byte_at bs 4 = CHR ''-''
         then (if byte_at bs 5 = CHR ''W''
               then (if len < 8 then None
                     else if 8 < len \<and> byte_at bs 8 = CHR ''-''
                     then (if len = 9 then None
                           else if 10 < len \<and> is_digit (byte_at bs 10) then Some 8
                           else Some 10)
                     else Some 8)
               else Some 10)
         else if byte_at bs 4 = CHR ''W''
         then (let idx = 7 + length (takeWhile is_digit (drop 7 bs))
               in if idx < 9 then Some idx else if even idx then Some 7 else Some 8)
         else Some 8)"

text \<open>
  A week date is converted to a calendar date through the ordinal of the Monday of the
  first ISO week of the year. A year has 53 ISO weeks when it starts on a Thursday, or is
  a leap year and starts on a Wednesday.
\<close>

definition iso_week1_monday :: "nat \<Rightarrow> nat" where
  "iso_week1_monday y =
     (let first_day = days_before_year y + 1;
          first_weekday = (first_day + 6) mod 7;
          week1_monday = first_day - first_weekday
      in if 3 < first_weekday then week1_monday + 7 else week1_monday)"

definition ord_to_ymd :: "nat \<Rightarrow> nat \<times> nat \<times> nat" where
  "ord_to_ymd ordinal =
     (let n0 = ordinal - 1;
          n400 = n0 div 146097; r400 = n0 mod 146097;
          n100 = r400 div 36524; r100 = r400 mod 36524;
          n4 = r100 div 1461; r4 = r100 mod 1461;
          n1 = r4 div 365; n = r4 mod 365;
          y = n400 * 400 + 1 + n100 * 100 + n4 * 4 + n1
      in if n1 = 4 \<or> n100 = 4 then (y - 1, 12, 31)
         else let m = (n + 50) div 32;
                  preceding = days_before_month y m
              in if n < preceding
                 then (y, m - 1, n - (preceding - days_in_month y (m - 1)) + 1)
                 else (y, m, n - preceding + 1))"

definition iso_to_ymd :: "nat \<Rightarrow> nat \<Rightarrow> nat \<Rightarrow> (nat \<times> nat \<times> nat) option" where
  "iso_to_ymd iso_year iso_week iso_day =
     (let first_weekday = (days_before_year iso_year + 1 + 6) mod 7
      in if iso_year < 1 \<or> 9999 < iso_year then None
         else if (iso_week = 0 \<or> 53 \<le> iso_week)
                 \<and> \<not> (iso_week = 53
                        \<and> (first_weekday = 3 \<or> (first_weekday = 2 \<and> is_leap iso_year)))
         then None
         else if iso_day = 0 \<or> 8 \<le> iso_day then None
         else Some (ord_to_ymd (iso_week1_monday iso_year + (iso_week - 1) * 7 + iso_day - 1)))"

text \<open>
  Reading the date. \<open>len\<close> is the position of the separator; only the week date without
  a day number looks at it.
\<close>

definition parse_isoformat_date :: "string \<Rightarrow> nat \<Rightarrow> (nat \<times> nat \<times> nat) option" where
  "parse_isoformat_date bs len =
     (case parse_digits bs 0 4 of
        None \<Rightarrow> None
      | Some y \<Rightarrow>
          let uses_separator = (byte_at bs 4 = CHR ''-'');
              p = (if uses_separator then 5 else 4)
          in if byte_at bs p = CHR ''W''
             then (case parse_digits bs (p + 1) 2 of
                     None \<Rightarrow> None
                   | Some iso_week \<Rightarrow>
                       if p + 3 < len
                       then (if uses_separator \<and> byte_at bs (p + 3) \<noteq> CHR ''-'' then None
                             else (case parse_digits bs (if uses_separator then p + 4 else p + 3) 1 of
                                     None \<Rightarrow> None
                                   | Some iso_day \<Rightarrow> iso_to_ymd y iso_week iso_day))
                       else iso_to_ymd y iso_week 1)
             else (case parse_digits bs p 2 of
                     None \<Rightarrow> None
                   | Some m \<Rightarrow>
                       if uses_separator \<and> byte_at bs (p + 2) \<noteq> CHR ''-'' then None
                       else (case parse_digits bs (if uses_separator then p + 3 else p + 2) 2 of
                               None \<Rightarrow> None
                             | Some d \<Rightarrow> Some (y, m, d))))"

text \<open>
  Reading a time \<^verbatim>\<open>HH[:MM[:SS[.ffffff]]]\<close> (or without the colons) between the positions
  \<open>p\<close> and \<open>p_end\<close>: up to three fields of two digits, then a fraction after a point or a
  comma, of which at most six digits are read and further digits are skipped. The
  result is the list of the fields read, with a flag that tells whether the byte where
  reading stopped is not the zero byte. After the third field the parser goes on to the
  fraction without asking for the point.
\<close>

definition parse_fraction :: "string \<Rightarrow> nat \<Rightarrow> nat \<Rightarrow> bool option" where
  "parse_fraction bs p p_end =
     (let to_parse = min 6 (p_end - p)
      in case parse_digits bs p to_parse of
           None \<Rightarrow> None
         | Some microsecond \<Rightarrow>
             Some (byte_at bs (p + to_parse + length (takeWhile is_digit (drop (p + to_parse) bs)))
                     \<noteq> CHR 0x00))"

fun parse_fields ::
  "nat \<Rightarrow> string \<Rightarrow> nat \<Rightarrow> nat \<Rightarrow> bool \<Rightarrow> nat list \<Rightarrow> (bool \<times> nat list) option" where
  "parse_fields 0 bs p p_end has_separator vals =
     (case parse_fraction bs p p_end of None \<Rightarrow> None | Some trailing \<Rightarrow> Some (trailing, vals))"
| "parse_fields (Suc k) bs p p_end has_separator vals =
     (case parse_digits bs p 2 of
        None \<Rightarrow> None
      | Some v \<Rightarrow>
          let c = byte_at bs (p + 2);
              has_sep = (if vals = [] then c = CHR '':'' else has_separator)
          in if p_end \<le> p + 3 then Some (c \<noteq> CHR 0x00, vals @ [v])
             else if has_sep \<and> c = CHR '':''
             then parse_fields k bs (p + 3) p_end has_sep (vals @ [v])
             else if c = CHR ''.'' \<or> c = CHR '',''
             then (case parse_fraction bs (p + 3) p_end of
                     None \<Rightarrow> None
                   | Some trailing \<Rightarrow> Some (trailing, vals @ [v]))
             else if \<not> has_sep
             then parse_fields k bs (p + 2) p_end has_sep (vals @ [v])
             else None)"

definition parse_hh_mm_ss_ff :: "string \<Rightarrow> nat \<Rightarrow> nat \<Rightarrow> (bool \<times> nat list) option" where
  "parse_hh_mm_ss_ff bs p p_end = parse_fields (Suc (Suc (Suc 0))) bs p p_end True []"

definition time_field :: "nat list \<Rightarrow> nat \<Rightarrow> nat" where
  "time_field vals i = (if i < length vals then vals ! i else 0)"

text \<open>
  Reading the time and the UTC offset from position \<open>p\<close> to the end. The offset starts
  at the first \<^verbatim>\<open>Z\<close>, \<^verbatim>\<open>+\<close> or \<^verbatim>\<open>-\<close>; \<^verbatim>\<open>Z\<close> must be the last character, and after a sign
  the offset is read like a time. The result is the fields of the time and the
  magnitude of the offset in seconds, if there is one.
\<close>

definition is_tz_char :: "char \<Rightarrow> bool" where
  "is_tz_char c = (c = CHR ''Z'' \<or> c = CHR ''+'' \<or> c = CHR ''-'')"

definition parse_isoformat_time :: "string \<Rightarrow> nat \<Rightarrow> (nat list \<times> nat option) option" where
  "parse_isoformat_time bs p =
     (let p_end = length bs;
          tzinfo_pos = p + length (takeWhile (\<lambda>c. \<not> is_tz_char c) (drop p bs))
      in case parse_hh_mm_ss_ff bs p tzinfo_pos of
           None \<Rightarrow> None
         | Some (trailing, vals) \<Rightarrow>
             if tzinfo_pos = p_end
             then (if trailing then None else Some (vals, None))
             else if byte_at bs tzinfo_pos = CHR ''Z''
             then (if byte_at bs (tzinfo_pos + 1) \<noteq> CHR 0x00 then None else Some (vals, Some 0))
             else (case parse_hh_mm_ss_ff bs (tzinfo_pos + 1) p_end of
                     None \<Rightarrow> None
                   | Some (trailing_tz, tz) \<Rightarrow>
                       if trailing_tz then None
                       else Some (vals, Some (time_field tz 0 * 3600 + time_field tz 1 * 60
                                               + time_field tz 2))))"

text \<open>
  \<^verbatim>\<open>datetime.fromisoformat(date_string)\<close>: the date up to the separator, the time after
  it when the string goes on, and then the checks of the constructors: an offset other
  than zero must be less than 24 hours, the date must be a date of the proleptic
  Gregorian calendar in the years 1 to 9999, and the time must be a time of day. Every
  failure is a \<^verbatim>\<open>ValueError\<close>, here \<open>None\<close>.
\<close>

definition fromisoformat :: "string \<Rightarrow> datetime option" where
  "fromisoformat date_string =
     (let bs = utf8 date_string
      in case find_separator bs of
           None \<Rightarrow> None
         | Some separator_location \<Rightarrow>
             (case parse_isoformat_date bs separator_location of
                None \<Rightarrow> None
              | Some (y, m, d) \<Rightarrow>
                  (case (if separator_location < length bs
                         then parse_isoformat_time bs
                                (separator_location + char_width (byte_at bs separator_location))
                         else Some ([], None)) of
                     None \<Rightarrow> None
                   | Some (vals, tzoffset) \<Rightarrow>
                       if (case tzoffset of None \<Rightarrow> True | Some secs \<Rightarrow> secs = 0 \<or> secs < 86400)
                          \<and> 1 \<le> y \<and> y \<le> 9999 \<and> 1 \<le> m \<and> m \<le> 12
                          \<and> 1 \<le> d \<and> d \<le> days_in_month y m
                          \<and> time_field vals 0 \<le> 23 \<and> time_field vals 1 \<le> 59
                          \<and> time_field vals 2 \<le> 59
                       then Some \<lparr>year = y, month = m, day = d\<rparr>
                       else None)))"

subsection \<open>\<^verbatim>\<open>strftime\<close>\<close>

text \<open>
  The day of the week as the library computes it: \<^verbatim>\<open>weekday() = (toordinal() + 6) % 7\<close>
  with Monday as 0.
\<close>

definition weekday :: "datetime \<Rightarrow> nat" where
  "weekday dt = (toordinal dt + 6) mod 7"

definition weekday_name :: "nat \<Rightarrow> string" where
  "weekday_name w =
     [''Monday'', ''Tuesday'', ''Wednesday'', ''Thursday'', ''Friday'', ''Saturday'', ''Sunday'']
       ! (w mod 7)"

definition month_name :: "nat \<Rightarrow> string" where
  "month_name m =
     [''January'', ''February'', ''March'', ''April'', ''May'', ''June'', ''July'', ''August'',
      ''September'', ''October'', ''November'', ''December''] ! ((m - 1) mod 12)"

definition zero_pad :: "nat \<Rightarrow> string \<Rightarrow> string" where
  "zero_pad w s = replicate (w - length s) (CHR ''0'') @ s"

text \<open>
  \<^verbatim>\<open>dt.strftime("%A %d %B %Y")\<close>, which the library hands to \<^verbatim>\<open>strftime\<close> of the C
  library, with the names of the C locale. \<^verbatim>\<open>%d\<close> is the day padded to two digits.
  \<^verbatim>\<open>%Y\<close> is the year as a decimal number; the GNU C library does not pad it, so the
  year 999 is printed as \<^verbatim>\<open>999\<close>.
\<close>

definition strftime :: "datetime \<Rightarrow> string" where
  "strftime dt =
     weekday_name (weekday dt) @ '' '' @ zero_pad 2 (str_nat (day dt)) @ '' ''
       @ month_name (month dt) @ '' '' @ str_nat (year dt)"

subsection \<open>The date formatter\<close>

text \<open>
  \<^verbatim>\<open>
  def convert_date(iso_string):
      dt = datetime.fromisoformat(iso_string)
      return dt.strftime("%A %d %B %Y")
  \<close>
  \<^verbatim>\<open>fromisoformat\<close> raises \<^verbatim>\<open>TypeError\<close> on an argument that is not a string and
  \<^verbatim>\<open>ValueError\<close> on a string it cannot read; neither is caught here.
\<close>

fun convert_date :: "pyval \<Rightarrow> error + string" where
  "convert_date (PStr iso_string) =
     (case fromisoformat iso_string of None \<Rightarrow> Inl ValueError | Some dt \<Rightarrow> Inr (strftime dt))"
| "convert_date v = Inl TypeError"

section \<open>The loader\<close>

text \<open>
  \<^verbatim>\<open>
  def is_iso_format(iso_str):
      try:
          datetime.fromisoformat(iso_str)
          return True
      except Exception as e:
          return False

  def number_or_string(num_str):
      try:
          return int(num_str)
      except ValueError:
          pass
      try:
          return float(num_str)
      except ValueError:
          pass
      return num_str
  \<close>
  \<^verbatim>\<open>number_or_string\<close> depends on the library only through what \<^verbatim>\<open>int(num_str)\<close> and
  \<^verbatim>\<open>float(num_str)\<close> do with a string: each returns a value or raises \<^verbatim>\<open>ValueError\<close>.
  The two library functions are parameters of the model, \<open>int_of_str\<close> and
  \<open>float_of_str\<close>, with \<open>None\<close> for \<^verbatim>\<open>ValueError\<close>; nothing is assumed about which strings
  they read.
\<close>

definition is_iso_format :: "string \<Rightarrow> bool" where
  "is_iso_format iso_str = (case fromisoformat iso_str of Some dt \<Rightarrow> True | None \<Rightarrow> False)"

definition number_or_string ::
  "(string \<Rightarrow> int option) \<Rightarrow> (string \<Rightarrow> rat option) \<Rightarrow> string \<Rightarrow> pyval" where
  "number_or_string int_of_str float_of_str num_str =
     (case int_of_str num_str of
        Some i \<Rightarrow> PInt i
      | None \<Rightarrow> (case float_of_str num_str of Some r \<Rightarrow> PFloat r | None \<Rightarrow> PStr num_str))"

text \<open>
  \<^verbatim>\<open>
  output_list = []
  with open(csv_file) as f:
      csv_reader = csv.reader(f)
      for row in csv_reader:
          if len(row) == 3:
              date, min, max = row
              if is_iso_format(date):
                  output_list.append([date, number_or_string(min), number_or_string(max)])
  return output_list
  \<close>
  A file is represented by the rows \<^verbatim>\<open>csv.reader\<close> yields for it, each a list of
  strings (an empty list for a blank line); the file system maps a path to its file.
  Opening a path that is not there raises \<^verbatim>\<open>FileNotFoundError\<close>. The loop variables
  \<^verbatim>\<open>min\<close> and \<^verbatim>\<open>max\<close> are \<open>mn\<close> and \<open>mx\<close>.
\<close>

fun load_loop ::
  "(string \<Rightarrow> int option) \<Rightarrow> (string \<Rightarrow> rat option) \<Rightarrow> string list list \<Rightarrow> pyval list list
     \<Rightarrow> pyval list list" where
  "load_loop int_of_str float_of_str [] output_list = output_list"
| "load_loop int_of_str float_of_str (row # rest) output_list =
     (if length row = 3
      then (case row of
              [date, mn, mx] \<Rightarrow>
                if is_iso_format date
                then load_loop int_of_str float_of_str rest
                       (output_list @ [[PStr date, number_or_string int_of_str float_of_str mn,
                                        number_or_string int_of_str float_of_str mx]])
                else load_loop int_of_str float_of_str rest output_list
            | _ \<Rightarrow> load_loop int_of_str float_of_str rest output_list)
      else load_loop int_of_str float_of_str rest output_list)"

definition load_data_from_csv ::
  "(string \<Rightarrow> int option) \<Rightarrow> (string \<Rightarrow> rat option) \<Rightarrow> (string \<rightharpoonup> string list list)
     \<Rightarrow> string \<Rightarrow> error + pyval list list" where
  "load_data_from_csv int_of_str float_of_str fs csv_file =
     (case fs csv_file of
        None \<Rightarrow> Inl FileNotFoundError
      | Some csv_reader \<Rightarrow> Inr (load_loop int_of_str float_of_str csv_reader []))"

section \<open>The reports\<close>

text \<open>
  A list comprehension whose element expression can raise, and \<^verbatim>\<open>xs[i]\<close> for an index
  that is not negative.
\<close>

fun mapE :: "('a \<Rightarrow> error + 'b) \<Rightarrow> 'a list \<Rightarrow> error + 'b list" where
  "mapE f [] = Inr []"
| "mapE f (x # xs) = bindE (f x) (\<lambda>y. bindE (mapE f xs) (\<lambda>ys. Inr (y # ys)))"

definition py_index :: "'a list \<Rightarrow> nat \<Rightarrow> error + 'a" where
  "py_index xs i = (if i < length xs then Inr (xs ! i) else Inl IndexError)"

definition py_of_opt :: "rat option \<Rightarrow> pyval" where
  "py_of_opt v = (case v of None \<Rightarrow> PNone | Some r \<Rightarrow> PFloat r)"

definition nl :: string where
  "nl = [CHR 0x0A]"

text \<open>
  \<^verbatim>\<open>
  def generate_summary(weather_data):
      date_list = [x[0] for x in weather_data]
      min_list = [x[1] for x in weather_data]
      max_list = [x[2] for x in weather_data]
      low_val, low_id = find_min(min_list)
      high_val, high_id = find_max(max_list)
      high_avg = calculate_mean(max_list)
      low_avg = calculate_mean(min_list)
      return f"""{len(weather_data)} Day Overview
    The lowest temperature will be {format_temperature(convert_f_to_c(low_val))}, and will occur on {convert_date(date_list[low_id])}.
    The highest temperature will be {format_temperature(convert_f_to_c(high_val))}, and will occur on {convert_date(date_list[high_id])}.
    The average low this week is {format_temperature(convert_f_to_c(low_avg))}.
    The average high this week is {format_temperature(convert_f_to_c(high_avg))}.
  """
  \<close>
  Unpacking the empty tuple into two names raises \<^verbatim>\<open>ValueError\<close>. The fields of the
  template are evaluated from left to right.
\<close>

definition generate_summary :: "pyval list list \<Rightarrow> error + string" where
  "generate_summary weather_data =
     bindE (mapE (\<lambda>x. py_index x 0) weather_data) (\<lambda>date_list.
     bindE (mapE (\<lambda>x. py_index x 1) weather_data) (\<lambda>min_list.
     bindE (mapE (\<lambda>x. py_index x 2) weather_data) (\<lambda>max_list.
     bindE (find_min min_list) (\<lambda>lo.
     case lo of None \<Rightarrow> Inl ValueError | Some (low_val, low_id) \<Rightarrow>
     bindE (find_max max_list) (\<lambda>hi.
     case hi of None \<Rightarrow> Inl ValueError | Some (high_val, high_id) \<Rightarrow>
     bindE (calculate_mean max_list) (\<lambda>high_avg.
     bindE (calculate_mean min_list) (\<lambda>low_avg.
     bindE (convert_f_to_c (py_of_opt low_val)) (\<lambda>low_c.
     bindE (py_index date_list low_id) (\<lambda>low_d.
     bindE (convert_date low_d) (\<lambda>low_date.
     bindE (convert_f_to_c (py_of_opt high_val)) (\<lambda>high_c.
     bindE (py_index date_list high_id) (\<lambda>high_d.
     bindE (convert_date high_d) (\<lambda>high_date.
     bindE (convert_f_to_c (PFloat low_avg)) (\<lambda>low_avg_c.
     bindE (convert_f_to_c (PFloat high_avg)) (\<lambda>high_avg_c.
     Inr (str_nat (length weather_data) @ '' Day Overview'' @ nl
          @ ''  The lowest temperature will be '' @ format_temperature (PFloat low_c)
          @ '', and will occur on '' @ low_date @ ''.'' @ nl
          @ ''  The highest temperature will be '' @ format_temperature (PFloat high_c)
          @ '', and will occur on '' @ high_date @ ''.'' @ nl
          @ ''  The average low this week is '' @ format_temperature (PFloat low_avg_c)
          @ ''.'' @ nl
          @ ''  The average high this week is '' @ format_temperature (PFloat high_avg_c)
          @ ''.'' @ nl))))))))))))))))"

text \<open>
  \<^verbatim>\<open>
  def generate_daily_summary(weather_data):
      output = ""
      for day in weather_data:
          date_str, min_val, max_val = day
          output += f"""---- {convert_date(date_str)} ----
    Minimum Temperature: {format_temperature(convert_f_to_c(min_val))}
    Maximum Temperature: {format_temperature(convert_f_to_c(max_val))}

  """
      return output
  \<close>
  Unpacking a row that does not have exactly three fields raises \<^verbatim>\<open>ValueError\<close>.
  \<open>day_block\<close> is the text one pass of the loop adds; the loop variables
  \<^verbatim>\<open>day\<close> and \<^verbatim>\<open>output\<close> are \<open>dy\<close> and \<open>out\<close>.
\<close>

definition day_block :: "string \<Rightarrow> rat \<Rightarrow> rat \<Rightarrow> string" where
  "day_block d mn mx =
     ''---- '' @ d @ '' ----'' @ nl
     @ ''  Minimum Temperature: '' @ format_temperature (PFloat mn) @ nl
     @ ''  Maximum Temperature: '' @ format_temperature (PFloat mx) @ nl
     @ nl"

fun daily_loop :: "pyval list list \<Rightarrow> string \<Rightarrow> error + string" where
  "daily_loop [] out = Inr out"
| "daily_loop (dy # rest) out =
     (case dy of
        [date_str, min_val, max_val] \<Rightarrow>
          bindE (convert_date date_str) (\<lambda>d.
          bindE (convert_f_to_c min_val) (\<lambda>mn.
          bindE (convert_f_to_c max_val) (\<lambda>mx.
          daily_loop rest (out @ day_block d mn mx))))
      | _ \<Rightarrow> Inl ValueError)"

definition generate_daily_summary :: "pyval list list \<Rightarrow> error + string" where
  "generate_daily_summary weather_data = daily_loop weather_data []"

subsection \<open>Counting the day blocks of a daily report\<close>




text \<open>The rows of a file that the loader keeps, and what it makes of one.\<close>

definition valid_row :: "string list \<Rightarrow> bool" where
  "valid_row row = (length row = 3 \<and> is_iso_format (row ! 0))"

definition load_row ::
  "(string \<Rightarrow> int option) \<Rightarrow> (string \<Rightarrow> rat option) \<Rightarrow> string list \<Rightarrow> pyval list" where
  "load_row int_of_str float_of_str row =
     [PStr (row ! 0), number_or_string int_of_str float_of_str (row ! 1),
      number_or_string int_of_str float_of_str (row ! 2)]"


section \<open>Properties of the numeric aggregator\<close>

subsection \<open>The scanning loops\<close>















subsection \<open>The claims about the aggregator\<close>

text \<open>
  C1, at an input where it fails. The claim is that the value \<^verbatim>\<open>find_min\<close> returns is at
  most every element of a non-empty list of numbers, and the value \<^verbatim>\<open>find_max\<close> returns
  at least every element. On \<^verbatim>\<open>[0, 5]\<close> the running minimum \<^verbatim>\<open>0.0\<close> is falsy, so
  \<^verbatim>\<open>not found_val\<close> holds again at the next element and \<^verbatim>\<open>find_min\<close> returns \<^verbatim>\<open>(5.0, 1)\<close>,
  above the element 0; on \<^verbatim>\<open>[0, -5]\<close> \<^verbatim>\<open>find_max\<close> returns \<^verbatim>\<open>(-5.0, 1)\<close>, below it.
\<close>

theorem find_min_max_zero_overwritten:
  "find_min [PInt 0, PInt 5] = Inr (Some (Some 5, 1))
   \<and> find_max [PInt 0, PInt (- 5)] = Inr (Some (Some (- 5), 1))"
  by (simp add: find_min_def find_max_def)








section \<open>Properties of the temperature converter\<close>





section \<open>Properties of the reports\<close>

text \<open>
  C9: on the empty dataset \<^verbatim>\<open>generate_daily_summary\<close> returns the empty string, and
  \<^verbatim>\<open>generate_summary\<close> raises: \<^verbatim>\<open>find_min\<close> returns the empty tuple, which cannot be
  unpacked into \<^verbatim>\<open>low_val, low_id\<close>.
\<close>

theorem empty_dataset_reports:
  "generate_daily_summary [] = Inr [] \<and> generate_summary [] = Inl ValueError"
  by (simp add: generate_daily_summary_def generate_summary_def bindE_def find_min_def)

section \<open>Decimal digits and calendar dates\<close>




lemma digits_val_snoc: "digits_val (ds @ [c]) = 10 * digits_val ds + digit_val c"
  by (simp add: digits_val_def)

lemma digit_val_less: "is_digit c \<Longrightarrow> digit_val c < 10"
  by (auto simp: is_digit_def digit_val_def)

lemma digits_val_less: "list_all is_digit ds \<Longrightarrow> digits_val ds < 10 ^ length ds"
proof (induction ds rule: rev_induct)
  case Nil
  then show ?case by (simp add: digits_val_def)
next
  case (snoc c ds)
  then have "digits_val ds < 10 ^ length ds" "digit_val c < 10"
    by (simp_all add: digit_val_less)
  then show ?case by (simp add: digits_val_snoc)
qed













section \<open>Evaluating the model on concrete inputs\<close>

lemma floor_rat_divide_numeral:
  "\<lfloor>numeral a / numeral b :: rat\<rfloor> = numeral a div numeral b"
  by (metis floor_divide_of_int_eq of_int_numeral)

lemma floor_rat_minus_divide_numeral:
  "\<lfloor>- (numeral a / numeral b) :: rat\<rfloor> = - numeral a div numeral b"
  by (metis divide_minus_left floor_divide_of_int_eq of_int_neg_numeral of_int_numeral)

lemma frac_digits_numeral:
  "frac_digits (numeral k) x =
     (let y = x * 10; d = nat \<lfloor>y\<rfloor>
      in digit_chr d # (if y - of_nat d = 0 then [] else frac_digits (pred_numeral k) (y - of_nat d)))"
  by (simp add: numeral_eq_Suc)

lemmas number_evals =
  floor_rat_divide_numeral floor_rat_minus_divide_numeral frac_digits_numeral
  float_repr_def format_temperature_def str_nat.simps digit_chr_def Let_def
  convert_f_to_c_def py_round1_def bindE_def

lemmas iso_evals =
  fromisoformat_def utf8_def find_separator_def byte_at_def char_width_def parse_digits_def
  parse_isoformat_date_def parse_isoformat_time_def parse_hh_mm_ss_ff_def parse_fraction_def
  time_field_def is_tz_char_def iso_to_ymd_def iso_week1_monday_def ord_to_ymd_def
  is_digit_def digits_val_def digit_val_def days_in_month_def is_leap_def
  days_before_year_def days_before_month_def Let_def upt_conv_Cons is_iso_format_def

lemmas strftime_evals =
  strftime_def weekday_def toordinal_def days_before_year_def days_before_month_def
  days_in_month_def is_leap_def weekday_name_def month_name_def zero_pad_def str_nat.simps
  digit_chr_def Let_def upt_conv_Cons

text \<open>The dates that the examples below use.\<close>

lemma fromisoformat_examples:
  "fromisoformat ''2021-07-05'' = Some \<lparr>year = 2021, month = 7, day = 5\<rparr>"
  "fromisoformat ''2021-07-06'' = Some \<lparr>year = 2021, month = 7, day = 6\<rparr>"
  "fromisoformat ''2021-07-02T07:00:00+08:00'' = Some \<lparr>year = 2021, month = 7, day = 2\<rparr>"
  "fromisoformat ''0999-01-01'' = Some \<lparr>year = 999, month = 1, day = 1\<rparr>"
  "fromisoformat ''2020-W53-7'' = Some \<lparr>year = 2021, month = 1, day = 3\<rparr>"
  "fromisoformat ''date'' = None"
  "fromisoformat ''2021-02-30'' = None"
  by (simp_all add: iso_evals)

lemma convert_date_examples:
  "convert_date (PStr ''2021-07-05'') = Inr ''Monday 05 July 2021''"
  "convert_date (PStr ''2021-07-06'') = Inr ''Tuesday 06 July 2021''"
  "convert_date (PStr ''2021-07-02T07:00:00+08:00'') = Inr ''Friday 02 July 2021''"
  "convert_date (PStr ''0999-01-01'') = Inr ''Tuesday 01 January 999''"
  "convert_date (PStr ''2020-W53-7'') = Inr ''Sunday 03 January 2021''"
  by (simp_all add: fromisoformat_examples strftime_evals)

section \<open>Properties of the date formatter\<close>









section \<open>Properties of the loader\<close>

lemma load_loop_filter_map:
  "load_loop int_of_str float_of_str rows acc
   = acc @ map (load_row int_of_str float_of_str) (filter valid_row rows)"
proof (induction rows arbitrary: acc)
  case Nil
  then show ?case by simp
next
  case (Cons row rows)
  show ?case
  proof (cases "length row = 3")
    case True
    then obtain a b c where row: "row = [a, b, c]"
      by (auto simp: length_Suc_conv numeral_3_eq_3)
    show ?thesis
      by (simp add: row Cons.IH valid_row_def load_row_def)
  next
    case False
    then show ?thesis by (simp add: Cons.IH valid_row_def)
  qed
qed

text \<open>
  C4: the rows \<^verbatim>\<open>load_data_from_csv\<close> returns are those rows of the file that have exactly
  three fields and a first field that \<^verbatim>\<open>fromisoformat\<close> reads, in file order; each is the
  first field followed by the second and third fields coerced to an integer if
  \<^verbatim>\<open>int\<close> reads the field, otherwise to a float if \<^verbatim>\<open>float\<close> reads it, otherwise left as
  the string. This holds whatever strings \<^verbatim>\<open>int\<close> and \<^verbatim>\<open>float\<close> read.
\<close>

theorem load_data_from_csv_rows:
  assumes "fs csv_file = Some rows"
  shows "load_data_from_csv int_of_str float_of_str fs csv_file
           = Inr (map (load_row int_of_str float_of_str) (filter valid_row rows))
       \<and> (valid_row row \<longleftrightarrow> length row = 3 \<and> fromisoformat (row ! 0) \<noteq> None)
       \<and> load_row int_of_str float_of_str row
           = [PStr (row ! 0), number_or_string int_of_str float_of_str (row ! 1),
              number_or_string int_of_str float_of_str (row ! 2)]
       \<and> (int_of_str num_str = Some i
            \<longrightarrow> number_or_string int_of_str float_of_str num_str = PInt i)
       \<and> (int_of_str num_str = None \<and> float_of_str num_str = Some r
            \<longrightarrow> number_or_string int_of_str float_of_str num_str = PFloat r)
       \<and> (int_of_str num_str = None \<and> float_of_str num_str = None
            \<longrightarrow> number_or_string int_of_str float_of_str num_str = PStr num_str)"
  using assms load_loop_filter_map [of int_of_str float_of_str rows "[]"]
  by (auto simp: load_data_from_csv_def number_or_string_def valid_row_def load_row_def
      is_iso_format_def split: option.splits)

text \<open>
  A file with a header line, a blank line, a date-time with a UTC offset, a row of two
  fields and a field that is not a number. \<^verbatim>\<open>int\<close> and \<^verbatim>\<open>float\<close> are given by their
  values on the fields of this file.
\<close>

theorem load_data_from_csv_rows_witness:
  "(\<lambda>p. if p = ''w.csv''
         then Some [[''date'', ''min'', ''max''], [], [''2021-07-02T07:00:00+08:00'', ''49'', ''67''],
                    [''2021-07-05'', ''8'', ''20.5''], [''2021-07-06'', ''1''],
                    [''2021-07-06'', ''x'', ''-3''], [''2021-02-30'', ''1'', ''2'']]
         else None) ''w.csv''
     = Some [[''date'', ''min'', ''max''], [], [''2021-07-02T07:00:00+08:00'', ''49'', ''67''],
             [''2021-07-05'', ''8'', ''20.5''], [''2021-07-06'', ''1''],
             [''2021-07-06'', ''x'', ''-3''], [''2021-02-30'', ''1'', ''2'']]
   \<and> load_data_from_csv
       (map_of [(''49'', 49), (''67'', 67), (''8'', 8), (''1'', 1), (''2'', 2), (''-3'', - 3)])
       (map_of [(''49'', 49), (''67'', 67), (''8'', 8), (''1'', 1), (''2'', 2), (''-3'', - 3),
                (''20.5'', 41 / 2)])
       (\<lambda>p. if p = ''w.csv''
         then Some [[''date'', ''min'', ''max''], [], [''2021-07-02T07:00:00+08:00'', ''49'', ''67''],
                    [''2021-07-05'', ''8'', ''20.5''], [''2021-07-06'', ''1''],
                    [''2021-07-06'', ''x'', ''-3''], [''2021-02-30'', ''1'', ''2'']]
         else None) ''w.csv''
     = Inr [[PStr ''2021-07-02T07:00:00+08:00'', PInt 49, PInt 67],
            [PStr ''2021-07-05'', PInt 8, PFloat (41 / 2)],
            [PStr ''2021-07-06'', PStr ''x'', PInt (- 3)]]"
proof -
  let ?rows = "[[''date'', ''min'', ''max''], [], [''2021-07-02T07:00:00+08:00'', ''49'', ''67''],
                [''2021-07-05'', ''8'', ''20.5''], [''2021-07-06'', ''1''],
                [''2021-07-06'', ''x'', ''-3''], [''2021-02-30'', ''1'', ''2'']]"
  let ?fs = "\<lambda>p. if p = ''w.csv'' then Some ?rows else None"
  let ?i = "map_of [(''49'', 49), (''67'', 67), (''8'', 8), (''1'', 1), (''2'', 2), (''-3'', - 3 :: int)]"
  let ?f = "map_of [(''49'', 49), (''67'', 67), (''8'', 8), (''1'', 1), (''2'', 2), (''-3'', - 3),
                    (''20.5'', 41 / 2 :: rat)]"
  have h: "?fs ''w.csv'' = Some ?rows" by simp
  have v: "filter valid_row ?rows
      = [[''2021-07-02T07:00:00+08:00'', ''49'', ''67''], [''2021-07-05'', ''8'', ''20.5''],
         [''2021-07-06'', ''x'', ''-3'']]"
    by (simp add: valid_row_def is_iso_format_def fromisoformat_examples)
  have e: "map (load_row ?i ?f) (filter valid_row ?rows)
      = [[PStr ''2021-07-02T07:00:00+08:00'', PInt 49, PInt 67],
         [PStr ''2021-07-05'', PInt 8, PFloat (41 / 2)],
         [PStr ''2021-07-06'', PStr ''x'', PInt (- 3)]]"
    unfolding v by (simp add: load_row_def number_or_string_def)
  from load_data_from_csv_rows [of ?fs "''w.csv''" ?rows ?i ?f, OF h] e h show ?thesis
    by simp
qed

section \<open>The overview and the daily report\<close>

text \<open>
  C6, at an input where it fails. The claim is that the overview reports the least of the
  minimum temperatures with the date of its record. On the two days
  \<^verbatim>\<open>["2021-07-05", 0, 20]\<close> and \<^verbatim>\<open>["2021-07-06", 5, 25]\<close> the least minimum is 0
  degrees Fahrenheit (-17.8 degrees Celsius) on 5 July; \<^verbatim>\<open>find_min\<close> returns
  \<^verbatim>\<open>(5.0, 1)\<close>, and the overview reports -15.0 degrees on 6 July as the lowest
  temperature. The rest of the text is the template of the claim.
\<close>

theorem generate_summary_zero_minimum:
  "generate_summary [[PStr ''2021-07-05'', PInt 0, PInt 20], [PStr ''2021-07-06'', PInt 5, PInt 25]]
   = Inr (''2 Day Overview'' @ nl
      @ ''  The lowest temperature will be -15.0'' @ DEGREE_SYBMOL
      @ '', and will occur on Tuesday 06 July 2021.'' @ nl
      @ ''  The highest temperature will be -3.9'' @ DEGREE_SYBMOL
      @ '', and will occur on Tuesday 06 July 2021.'' @ nl
      @ ''  The average low this week is -16.4'' @ DEGREE_SYBMOL @ ''.'' @ nl
      @ ''  The average high this week is -5.3'' @ DEGREE_SYBMOL @ ''.'' @ nl)"
proof -
  have d: "convert_date (PStr ''2021-07-06'') = Inr ''Tuesday 06 July 2021''"
    by (rule convert_date_examples)
  have c: "convert_f_to_c (PFloat (5 / 2)) = Inr (- (164 / 10))"
    "convert_f_to_c (PFloat (45 / 2)) = Inr (- (53 / 10))"
    "convert_f_to_c (PFloat 5) = Inr (- 15)" "convert_f_to_c (PFloat 25) = Inr (- (39 / 10))"
    by (simp_all add: number_evals)
  have f: "format_temperature (PFloat (- 15)) = ''-15.0'' @ DEGREE_SYBMOL"
    "format_temperature (PFloat (- (39 / 10))) = ''-3.9'' @ DEGREE_SYBMOL"
    "format_temperature (PFloat (- (164 / 10))) = ''-16.4'' @ DEGREE_SYBMOL"
    "format_temperature (PFloat (- (53 / 10))) = ''-5.3'' @ DEGREE_SYBMOL"
    by (simp_all add: number_evals)
  have a: "find_min [PInt 0, PInt 5] = Inr (Some (Some 5, 1))"
    "find_max [PInt 20, PInt 25] = Inr (Some (Some 25, 1))"
    "calculate_mean [PInt 0, PInt 5] = Inr (5 / 2)"
    "calculate_mean [PInt 20, PInt 25] = Inr (45 / 2)"
    by (simp_all add: find_min_def find_max_def calculate_mean_def)
  have s: "str_nat (Suc (Suc 0)) = ''2''" by (simp add: str_nat.simps digit_chr_def)
  show ?thesis
    unfolding generate_summary_def
    by (simp add: bindE_def py_index_def py_of_opt_def a c [simplified] d f [simplified] s
          del: convert_date.simps)
qed

subsection \<open>Lines of the daily report\<close>



















end
